theory Spec2Isabelle
  imports Complex_Main
begin

text \<open>
  The usage page's \<open>Infrastructure\<close> component
  (\<open>studio/components/interfaces/BillingV2/Usage/Infrastructure.tsx\<close>): from its props
  and from what its hooks return it derives the plan flag, the compute specs, the
  interval of the metric queries and two numbers of the disk IO series, and renders one
  section per attribute of the "infra" category. The component is modelled as a
  function from the props and its collaborators to the rendered tree.
\<close>

section \<open>JavaScript values used by the component\<close>

text \<open>
  A JavaScript number: NaN, the two infinities, or a finite value. \<open>Math.max\<close> and the
  comparisons involve no rounding, so a finite double is modelled by the real number
  it denotes (the sign of zero is not distinguished).
\<close>

datatype jsnum = NaN | NegInf | Fin real | PosInf

text \<open>The relational operators \<open><\<close> and \<open><=\<close>: false as soon as one operand is NaN.\<close>

fun js_less :: "jsnum \<Rightarrow> jsnum \<Rightarrow> bool" where
  "js_less (Fin x) (Fin y) = (x < y)"
| "js_less NegInf (Fin y) = True"
| "js_less NegInf PosInf = True"
| "js_less (Fin x) PosInf = True"
| "js_less _ _ = False"

definition js_le :: "jsnum \<Rightarrow> jsnum \<Rightarrow> bool" where
  "js_le a b = (a \<noteq> NaN \<and> b \<noteq> NaN \<and> \<not> js_less b a)"

text \<open>
  \<open>Math.max(...args)\<close>: NaN when an argument is NaN, otherwise the largest argument,
  starting from \<open>-Infinity\<close> (the result for no argument).
\<close>

definition Math_max :: "jsnum list \<Rightarrow> jsnum" where
  "Math_max args =
     (if NaN \<in> set args then NaN
      else fold (\<lambda>x highest. if js_less highest x then x else highest) args NegInf)"

text \<open>
  Modelled from the spec: the declaration of \<open>DataPoint\<close> is not among the source
  files; the spec has a point of a series carry a numeric value per metric attribute,
  which can be missing or not a number. So the value of a property of a point is a
  number (NaN included), or \<open>undefined\<close> when the point does not carry the property.
\<close>

datatype jsval = JUndefined | JNumber jsnum

text \<open>\<open>Number(v)\<close>: \<open>undefined\<close> converts to NaN, a number to itself.\<close>

fun Number :: "jsval \<Rightarrow> jsnum" where
  "Number JUndefined = NaN"
| "Number (JNumber n) = n"

text \<open>\<open>a ?? b\<close>: \<open>b\<close> only when \<open>a\<close> is \<open>undefined\<close> (or \<open>null\<close>); NaN is not nullish.\<close>

definition nullish :: "jsval \<Rightarrow> jsval \<Rightarrow> jsval" where
  "nullish a b = (if a = JUndefined then b else a)"

text \<open>
  \<open>s.split(c)\<close> for a one-character separator: the pieces between the separators, a
  single empty piece for the empty string.
\<close>

fun split :: "char \<Rightarrow> string \<Rightarrow> string list" where
  "split c [] = [[]]"
| "split c (x # xs) =
     (if x = c then [] # split c xs
      else (case split c xs of
              [] \<Rightarrow> [[x]]
            | w # ws \<Rightarrow> (x # w) # ws))"

section \<open>dayjs\<close>

text \<open>
  A dayjs object: an instant in milliseconds since the epoch, or an invalid date (what
  parsing an unreadable string gives).
\<close>

datatype Dayjs = InvalidDate | Instant int

text \<open>
  \<open>a.diff(b, 'hours')\<close>: dayjs divides the difference in milliseconds by the
  milliseconds of an hour and, as no \<open>float\<close> argument is passed, truncates the
  quotient toward zero; with an invalid date the difference is NaN.
\<close>

definition MILLISECONDS_A_HOUR :: int where
  "MILLISECONDS_A_HOUR = 3600000"

definition absFloor :: "int \<Rightarrow> int \<Rightarrow> int" where
  "absFloor d k = (if d < 0 then - ((- d) div k) else d div k)"

fun diff_hours :: "Dayjs \<Rightarrow> Dayjs \<Rightarrow> jsnum" where
  "diff_hours (Instant a) (Instant b) = Fin (of_int (absFloor (a - b) MILLISECONDS_A_HOUR))"
| "diff_hours _ _ = NaN"

text \<open>\<open>a.isAfter(b)\<close>: strictly later; false when either date is invalid.\<close>

fun isAfter :: "Dayjs \<Rightarrow> Dayjs \<Rightarrow> bool" where
  "isAfter (Instant a) (Instant b) = (b < a)"
| "isAfter _ _ = False"

section \<open>Data supplied to the component\<close>

text \<open>
  The component imports the declarations of these types; each record has the fields
  that the component reads, optional where it reads them with \<open>?.\<close>.
\<close>

record InfrastructureProps =
  projectRef :: string
  startDate :: "string option"
  endDate :: "string option"
  currentBillingCycleSelected :: bool

record Plan =
  plan_id :: string

record Subscription =
  plan :: "Plan option"

record ResourceWarning =
  project :: string
  cpu_exhaustion :: "string option"
  memory_and_swap_exhaustion :: "string option"

text \<open>
  The metadata of a compute variant. The component reads its numbers with \<open>?.\<close>, so
  each can be \<open>undefined\<close>; they come from the JSON of the API and are finite, so
  that \<open>===\<close> on them is equality.
\<close>

record ComputeMeta =
  baseline_disk_io_mbs :: "real option"
  max_disk_io_mbs :: "real option"
  cpu_cores :: "real option"
  cpu_dedicated :: "bool option"
  memory_gb :: "real option"

record AddonVariant =
  variant_name :: string
  meta :: "ComputeMeta option"

text \<open>The kind of an add-on: a compute instance, or any other kind.\<close>

datatype AddonType = ComputeInstance | OtherAddon

record SelectedAddon =
  addon_type :: AddonType
  variant :: "AddonVariant option"

record ProjectAddons =
  selected_addons :: "SelectedAddon list"

text \<open>
  A point of a time series: an object read by property name. A name the point does
  not carry reads as \<open>undefined\<close>.
\<close>

type_synonym DataPoint = "(string \<times> jsval) list"

definition get_prop :: "DataPoint \<Rightarrow> string \<Rightarrow> jsval" where
  "get_prop x k = (case map_of x k of None \<Rightarrow> JUndefined | Some v \<Rightarrow> v)"

record AnalyticsData =
  data :: "DataPoint list option"

datatype Interval = Interval_1d | Interval_1h

record InfraMonitoringVariables =
  var_projectRef :: string
  var_attribute :: string
  var_interval :: Interval
  var_startDate :: "string option"
  var_endDate :: "string option"
  var_dateFormat :: string

record InfraMonitoringResult =
  query_data :: "AnalyticsData option"
  query_isLoading :: bool

record CategoryAttribute =
  anchor :: string
  key :: string
  attribute :: string
  name :: string
  unit :: string
  chartPrefix :: "string option"
  chartDescription :: string

record CategoryMeta =
  category_key :: string
  category_name :: string
  category_description :: string
  attributes :: "CategoryAttribute list"

text \<open>
  Everything the component imports and calls: the data hooks (each as the function from
  its arguments to what it returns in this render), the static catalog, the upgrade-URL
  helper, and dayjs with the clock: the parser of date strings, the current instant
  (one render reads the clock as one instant), and the start of the local day of an
  instant.
\<close>

record Collaborators =
  useProjectSubscriptionV2Query :: "string \<Rightarrow> Subscription option"
  useResourceWarningsQuery :: "ResourceWarning list option"
  useProjectAddonsQuery :: "string \<Rightarrow> ProjectAddons option"
  useInfraMonitoringQuery :: "InfraMonitoringVariables \<Rightarrow> InfraMonitoringResult"
  USAGE_CATEGORIES :: "CategoryMeta list"
  getUpgradeUrl :: "string \<Rightarrow> Subscription option \<Rightarrow> string"
  dayjs_parse :: "string \<Rightarrow> Dayjs"
  dayjs_now :: int
  dayjs_startOfDay :: "int \<Rightarrow> int"

text \<open>\<open>dayjs(x)\<close> for an optional string: the current instant when \<open>x\<close> is \<open>undefined\<close>.\<close>

definition dayjs :: "Collaborators \<Rightarrow> string option \<Rightarrow> Dayjs" where
  "dayjs c x = (case x of None \<Rightarrow> Instant (dayjs_now c) | Some s \<Rightarrow> dayjs_parse c s)"

text \<open>\<open>d.startOf('day')\<close>.\<close>

definition startOf_day :: "Collaborators \<Rightarrow> Dayjs \<Rightarrow> Dayjs" where
  "startOf_day c d =
     (case d of InvalidDate \<Rightarrow> InvalidDate | Instant t \<Rightarrow> Instant (dayjs_startOfDay c t))"

section \<open>The local values of a render\<close>

text \<open>
  Each local constant of \<open>Infrastructure\<close> is a function of the collaborators \<open>c\<close> and
  the props \<open>p\<close> of the render, under the name it has in the source.
\<close>

definition subscription :: "Collaborators \<Rightarrow> InfrastructureProps \<Rightarrow> Subscription option" where
  "subscription c p = useProjectSubscriptionV2Query c (projectRef p)"

definition projectResourceWarnings ::
  "Collaborators \<Rightarrow> InfrastructureProps \<Rightarrow> ResourceWarning option" where
  "projectResourceWarnings c p =
     (case useResourceWarningsQuery c of
        None \<Rightarrow> None
      | Some resourceWarnings \<Rightarrow> find (\<lambda>x. project x = projectRef p) resourceWarnings)"

definition categoryMeta :: "Collaborators \<Rightarrow> CategoryMeta option" where
  "categoryMeta c = find (\<lambda>category. category_key category = ''infra'') (USAGE_CATEGORIES c)"

definition upgradeUrl :: "Collaborators \<Rightarrow> InfrastructureProps \<Rightarrow> string" where
  "upgradeUrl c p = getUpgradeUrl c (projectRef p) (subscription c p)"

definition isFreePlan :: "Collaborators \<Rightarrow> InfrastructureProps \<Rightarrow> bool" where
  "isFreePlan c p =
     (Option.bind (Option.bind (subscription c p) plan) (\<lambda>pl. Some (plan_id pl)) = Some ''free'')"

definition selectedAddons :: "Collaborators \<Rightarrow> InfrastructureProps \<Rightarrow> SelectedAddon list" where
  "selectedAddons c p =
     (case useProjectAddonsQuery c (projectRef p) of
        None \<Rightarrow> []
      | Some addons \<Rightarrow> selected_addons addons)"

text \<open>
  Modelled from the spec: \<open>getAddons\<close> of \<open>Subscription.utils\<close> is not among the source
  files; the spec has it "find an add-on of compute instance kind" in the list of
  selected add-ons. Only its \<open>computeInstance\<close> result is used here.
\<close>

definition getAddons :: "SelectedAddon list \<Rightarrow> SelectedAddon option" where
  "getAddons selected = find (\<lambda>addon. addon_type addon = ComputeInstance) selected"

definition computeInstance :: "Collaborators \<Rightarrow> InfrastructureProps \<Rightarrow> SelectedAddon option" where
  "computeInstance c p = getAddons (selectedAddons c p)"

definition defaultComputeInstanceSpecs :: ComputeMeta where
  "defaultComputeInstanceSpecs =
     \<lparr>baseline_disk_io_mbs = Some 87, max_disk_io_mbs = Some 2085, cpu_cores = Some 2,
      cpu_dedicated = Some True, memory_gb = Some 1\<rparr>"

definition currentComputeInstanceSpecs ::
  "Collaborators \<Rightarrow> InfrastructureProps \<Rightarrow> ComputeMeta" where
  "currentComputeInstanceSpecs c p =
     (case Option.bind (Option.bind (computeInstance c p) variant) meta of
        None \<Rightarrow> defaultComputeInstanceSpecs
      | Some m \<Rightarrow> m)"

text \<open>A string prop is truthy when it is present and not empty.\<close>

definition truthy :: "string option \<Rightarrow> bool" where
  "truthy x = (case x of None \<Rightarrow> False | Some s \<Rightarrow> s \<noteq> [])"

definition diffInHours :: "Collaborators \<Rightarrow> string \<Rightarrow> string \<Rightarrow> jsnum" where
  "diffInHours c startDate' endDate' =
     diff_hours (dayjs_parse c endDate') (dayjs_parse c startDate')"

definition interval_dateFormat ::
  "Collaborators \<Rightarrow> InfrastructureProps \<Rightarrow> Interval \<times> string" where
  "interval_dateFormat c p =
     (case (startDate p, endDate p) of
        (Some s, Some e) \<Rightarrow>
          if truthy (Some s) \<and> truthy (Some e) then
            (if js_le (diffInHours c s e) (Fin 48) then (Interval_1h, ''h a'')
             else (Interval_1d, ''DD MMM''))
          else (Interval_1d, ''DD MMM'')
      | _ \<Rightarrow> (Interval_1d, ''DD MMM''))"

definition interval :: "Collaborators \<Rightarrow> InfrastructureProps \<Rightarrow> Interval" where
  "interval c p = fst (interval_dateFormat c p)"

definition dateFormat :: "Collaborators \<Rightarrow> InfrastructureProps \<Rightarrow> string" where
  "dateFormat c p = snd (interval_dateFormat c p)"

definition infraMonitoringVariables ::
  "Collaborators \<Rightarrow> InfrastructureProps \<Rightarrow> string \<Rightarrow> InfraMonitoringVariables" where
  "infraMonitoringVariables c p a =
     \<lparr>var_projectRef = projectRef p, var_attribute = a, var_interval = interval c p,
      var_startDate = startDate p, var_endDate = endDate p, var_dateFormat = dateFormat c p\<rparr>"

definition cpuUsage :: "Collaborators \<Rightarrow> InfrastructureProps \<Rightarrow> InfraMonitoringResult" where
  "cpuUsage c p = useInfraMonitoringQuery c (infraMonitoringVariables c p ''max_cpu_usage'')"

definition memoryUsage :: "Collaborators \<Rightarrow> InfrastructureProps \<Rightarrow> InfraMonitoringResult" where
  "memoryUsage c p = useInfraMonitoringQuery c (infraMonitoringVariables c p ''ram_usage'')"

definition ioBudget :: "Collaborators \<Rightarrow> InfrastructureProps \<Rightarrow> InfraMonitoringResult" where
  "ioBudget c p =
     useInfraMonitoringQuery c (infraMonitoringVariables c p ''disk_io_consumption'')"

text \<open>\<open>x?.data\<close> of a query's result, and \<open>x?.data ?? []\<close>.\<close>

definition data_of :: "AnalyticsData option \<Rightarrow> DataPoint list option" where
  "data_of x = Option.bind x data"

definition data_or_empty :: "AnalyticsData option \<Rightarrow> DataPoint list" where
  "data_or_empty x = (case data_of x of None \<Rightarrow> [] | Some xs \<Rightarrow> xs)"

definition hasLatest :: "Collaborators \<Rightarrow> InfrastructureProps \<Rightarrow> bool" where
  "hasLatest c p = isAfter (dayjs c (endDate p)) (startOf_day c (dayjs c None))"

text \<open>\<open>xs.slice(-1)\<close>: the last element alone, or nothing of an empty array.\<close>

definition slice_last :: "'a list \<Rightarrow> 'a list" where
  "slice_last xs = (if xs = [] then [] else [last xs])"

text \<open>
  \<open>ioBudgetData?.data?.slice(-1)?.[0]\<close>: the last point, or \<open>undefined\<close>. A point is
  an object, so it is truthy whenever it is there.
\<close>

definition lastPoint :: "AnalyticsData option \<Rightarrow> DataPoint option" where
  "lastPoint x =
     (case data_of x of
        None \<Rightarrow> None
      | Some xs \<Rightarrow> (case slice_last xs of [] \<Rightarrow> None | y # _ \<Rightarrow> Some y))"

definition latestIoBudgetConsumption :: "Collaborators \<Rightarrow> InfrastructureProps \<Rightarrow> jsnum" where
  "latestIoBudgetConsumption c p =
     (case (if hasLatest c p then lastPoint (query_data (ioBudget c p)) else None) of
        Some y \<Rightarrow> Number (get_prop y ''disk_io_consumption'')
      | None \<Rightarrow> Fin 0)"

definition highestIoBudgetConsumption :: "Collaborators \<Rightarrow> InfrastructureProps \<Rightarrow> jsnum" where
  "highestIoBudgetConsumption c p =
     Math_max
       (map (\<lambda>x. Number (nullish (JNumber (Number (get_prop x ''disk_io_consumption'')))
                                  (JNumber (Fin 0))))
            (data_or_empty (query_data (ioBudget c p)))
        @ [Fin 0])"

section \<open>What a render produces\<close>

text \<open>
  The element tree is kept as records that follow the JSX: one field per child that
  depends on data, an \<open>option\<close> for a child under \<open>cond && (...)\<close>. Fixed texts and
  class names are left out, and so are the constant props of the chart (the two
  percentage formatters and the y limit of 100).
\<close>

record DiskIOBandwidthWarnings =
  io_upgradeUrl :: string
  io_isFreePlan :: bool
  io_hasLatest :: bool
  io_currentBillingCycleSelected :: bool
  io_latestIoBudgetConsumption :: jsnum
  io_highestIoBudgetConsumption :: jsnum

text \<open>The props of \<open>CPUWarnings\<close> and of \<open>RAMWarnings\<close>.\<close>

record SeverityWarnings =
  sw_isFreePlan :: bool
  sw_upgradeUrl :: string
  sw_severity :: "string option"

text \<open>
  The sentence under "Disk IO Bandwidth": one throughput for baseline and maximum, or
  the burst to the maximum that reverts to the baseline.
\<close>

datatype ThroughputSentence =
    FixedThroughput "real option"
  | BurstThenRevert "real option" "real option"

text \<open>
  The overview table: the instance name, the maximum and the baseline bandwidth, and
  the text of the "Daily burst time limit" row when the row is there.
\<close>

record Overview =
  ov_instance :: string
  ov_max :: "real option"
  ov_baseline :: "real option"
  ov_burst_limit :: "string option"

record DiskIOSection =
  io_warnings :: DiskIOBandwidthWarnings
  io_sentence :: ThroughputSentence
  io_overview :: Overview

text \<open>The title over the chart; \<open>per\<close> is "day" or "hour".\<close>

datatype ChartTitle =
    DiskIOConsumedPer string
  | MaxUtilizationPer bool string string

record MemoryNote =
  mem_memory_gb :: "real option"
  mem_smallest_instance :: bool

datatype ChartBody =
    ShimmeringLoaders
  | UsageBarChart string string string "DataPoint list"
  | NoDataPanel

record AttributeSection =
  sec_id :: string
  sec_section :: CategoryAttribute
  sec_disk_io :: "DiskIOSection option"
  sec_cpu_warnings :: "SeverityWarnings option"
  sec_ram_warnings :: "SeverityWarnings option"
  sec_title :: ChartTitle
  sec_memory :: "MemoryNote option"
  sec_cpu_cores :: "real option option"
  sec_paragraphs :: "string list"
  sec_chart :: ChartBody

record Rendered =
  header_title :: string
  header_description :: string
  sections :: "AttributeSection list"

datatype js_error = TypeError

section \<open>The chart table\<close>

record ChartMetaEntry =
  meta_isLoading :: bool
  meta_data :: "DataPoint list"

text \<open>
  Reading \<open>chartMeta[k]\<close>. \<open>chartMeta\<close> is an object literal, so besides its own three
  properties a lookup finds the properties every object inherits from
  \<open>Object.prototype\<close>; what it finds there has neither a \<open>data\<close> nor an \<open>isLoading\<close>
  property. Any other name reads as \<open>undefined\<close>.
\<close>

datatype 'a lookup = Absent | Inherited | Own 'a

definition Object_prototype :: "string list" where
  "Object_prototype =
     [''constructor'', ''__proto__'', ''hasOwnProperty'', ''isPrototypeOf'',
      ''propertyIsEnumerable'', ''toLocaleString'', ''toString'', ''valueOf'',
      ''__defineGetter__'', ''__defineSetter__'', ''__lookupGetter__'', ''__lookupSetter__'']"

definition chartMeta ::
  "Collaborators \<Rightarrow> InfrastructureProps \<Rightarrow> string \<Rightarrow> ChartMetaEntry lookup" where
  "chartMeta c p k =
     (if k = ''max_cpu_usage'' then
        Own \<lparr>meta_isLoading = query_isLoading (cpuUsage c p),
             meta_data = data_or_empty (query_data (cpuUsage c p))\<rparr>
      else if k = ''ram_usage'' then
        Own \<lparr>meta_isLoading = query_isLoading (memoryUsage c p),
             meta_data = data_or_empty (query_data (memoryUsage c p))\<rparr>
      else if k = ''disk_io_consumption'' then
        Own \<lparr>meta_isLoading = query_isLoading (ioBudget c p),
             meta_data = data_or_empty (query_data (ioBudget c p))\<rparr>
      else if k \<in> set Object_prototype then Inherited
      else Absent)"

text \<open>\<open>chartMeta[attribute.key]?.data ?? []\<close>.\<close>

definition chartData :: "Collaborators \<Rightarrow> InfrastructureProps \<Rightarrow> CategoryAttribute \<Rightarrow> DataPoint list" where
  "chartData c p a = (case chartMeta c p (key a) of Own e \<Rightarrow> meta_data e | _ \<Rightarrow> [])"

text \<open>
  \<open>chartMeta[attribute.key].isLoading\<close>, with no \<open>?.\<close>: reading a property of
  \<open>undefined\<close> throws a TypeError; an inherited property has no \<open>isLoading\<close>, which
  is falsy.
\<close>

definition chartIsLoading ::
  "Collaborators \<Rightarrow> InfrastructureProps \<Rightarrow> CategoryAttribute \<Rightarrow> js_error + bool" where
  "chartIsLoading c p a =
     (case chartMeta c p (key a) of
        Absent \<Rightarrow> Inl TypeError
      | Inherited \<Rightarrow> Inr False
      | Own e \<Rightarrow> Inr (meta_isLoading e))"

section \<open>Rendering\<close>

definition per :: "Collaborators \<Rightarrow> InfrastructureProps \<Rightarrow> string" where
  "per c p = (if interval c p = Interval_1d then ''day'' else ''hour'')"

definition diskIOWarnings ::
  "Collaborators \<Rightarrow> InfrastructureProps \<Rightarrow> DiskIOBandwidthWarnings" where
  "diskIOWarnings c p =
     \<lparr>io_upgradeUrl = upgradeUrl c p,
      io_isFreePlan = isFreePlan c p,
      io_hasLatest = hasLatest c p,
      io_currentBillingCycleSelected = currentBillingCycleSelected p,
      io_latestIoBudgetConsumption = latestIoBudgetConsumption c p,
      io_highestIoBudgetConsumption = highestIoBudgetConsumption c p\<rparr>"

definition throughputSentence :: "ComputeMeta \<Rightarrow> ThroughputSentence" where
  "throughputSentence specs =
     (if baseline_disk_io_mbs specs = max_disk_io_mbs specs
      then FixedThroughput (max_disk_io_mbs specs)
      else BurstThenRevert (max_disk_io_mbs specs) (baseline_disk_io_mbs specs))"

definition overview :: "Collaborators \<Rightarrow> InfrastructureProps \<Rightarrow> Overview" where
  "overview c p =
     (let specs = currentComputeInstanceSpecs c p in
      \<lparr>ov_instance =
         (case Option.bind (computeInstance c p) variant of
            None \<Rightarrow> ''Micro''
          | Some v \<Rightarrow> variant_name v),
       ov_max = max_disk_io_mbs specs,
       ov_baseline = baseline_disk_io_mbs specs,
       ov_burst_limit =
         (if max_disk_io_mbs specs \<noteq> baseline_disk_io_mbs specs then Some ''30 mins''
          else None)\<rparr>)"

definition diskIOSection :: "Collaborators \<Rightarrow> InfrastructureProps \<Rightarrow> DiskIOSection" where
  "diskIOSection c p =
     \<lparr>io_warnings = diskIOWarnings c p,
      io_sentence = throughputSentence (currentComputeInstanceSpecs c p),
      io_overview = overview c p\<rparr>"

definition cpuWarnings :: "Collaborators \<Rightarrow> InfrastructureProps \<Rightarrow> SeverityWarnings" where
  "cpuWarnings c p =
     \<lparr>sw_isFreePlan = isFreePlan c p,
      sw_upgradeUrl = upgradeUrl c p,
      sw_severity = Option.bind (projectResourceWarnings c p) cpu_exhaustion\<rparr>"

definition ramWarnings :: "Collaborators \<Rightarrow> InfrastructureProps \<Rightarrow> SeverityWarnings" where
  "ramWarnings c p =
     \<lparr>sw_isFreePlan = isFreePlan c p,
      sw_upgradeUrl = upgradeUrl c p,
      sw_severity = Option.bind (projectResourceWarnings c p) memory_and_swap_exhaustion\<rparr>"

definition chartTitle ::
  "Collaborators \<Rightarrow> InfrastructureProps \<Rightarrow> CategoryAttribute \<Rightarrow> ChartTitle" where
  "chartTitle c p a =
     (if key a = ''disk_io_consumption'' then DiskIOConsumedPer (per c p)
      else MaxUtilizationPer (key a = ''ram_usage'') (name a) (per c p))"

definition memoryNote :: "ComputeMeta \<Rightarrow> MemoryNote" where
  "memoryNote specs =
     \<lparr>mem_memory_gb = memory_gb specs, mem_smallest_instance = (memory_gb specs = Some 1)\<rparr>"

text \<open>\<open>attribute.chartPrefix || ''\<close> followed by the attribute's name.\<close>

definition chartName :: "CategoryAttribute \<Rightarrow> string" where
  "chartName a = (case chartPrefix a of None \<Rightarrow> [] | Some pre \<Rightarrow> pre) @ name a"

text \<open>The three-way choice at the end of a section, given the loading flag.\<close>

definition chartBody :: "bool \<Rightarrow> CategoryAttribute \<Rightarrow> DataPoint list \<Rightarrow> ChartBody" where
  "chartBody loading a series =
     (if loading then ShimmeringLoaders
      else if length series \<noteq> 0 then UsageBarChart (chartName a) (unit a) (attribute a) series
      else NoDataPanel)"

text \<open>
  The body of \<open>categoryMeta.attributes.map((attribute) => ...)\<close>: the section of one
  attribute, or the error thrown while building it.
\<close>

definition renderAttribute ::
  "Collaborators \<Rightarrow> InfrastructureProps \<Rightarrow> CategoryAttribute \<Rightarrow> js_error + AttributeSection" where
  "renderAttribute c p a =
     (case chartIsLoading c p a of
        Inl e \<Rightarrow> Inl e
      | Inr loading \<Rightarrow>
          Inr \<lparr>sec_id = anchor a,
               sec_section = a,
               sec_disk_io =
                 (if key a = ''disk_io_consumption'' then Some (diskIOSection c p) else None),
               sec_cpu_warnings =
                 (if key a = ''max_cpu_usage'' then Some (cpuWarnings c p) else None),
               sec_ram_warnings =
                 (if key a = ''ram_usage'' then Some (ramWarnings c p) else None),
               sec_title = chartTitle c p a,
               sec_memory =
                 (if key a = ''ram_usage''
                  then Some (memoryNote (currentComputeInstanceSpecs c p)) else None),
               sec_cpu_cores =
                 (if key a = ''max_cpu_usage''
                  then Some (cpu_cores (currentComputeInstanceSpecs c p)) else None),
               sec_paragraphs = split (CHR 0x0A) (chartDescription a),
               sec_chart = chartBody loading a (chartData c p a)\<rparr>)"

text \<open>\<open>Array.map\<close> with a callback that may throw: the first error ends the loop.\<close>

fun renderAttributes ::
  "Collaborators \<Rightarrow> InfrastructureProps \<Rightarrow> CategoryAttribute list
     \<Rightarrow> js_error + AttributeSection list" where
  "renderAttributes c p [] = Inr []"
| "renderAttributes c p (a # as) =
     (case renderAttribute c p a of
        Inl e \<Rightarrow> Inl e
      | Inr s \<Rightarrow>
          (case renderAttributes c p as of
             Inl e \<Rightarrow> Inl e
           | Inr ss \<Rightarrow> Inr (s # ss)))"

text \<open>
  The component: \<open>Inr None\<close> is the \<open>null\<close> it returns when there is nothing to render,
  \<open>Inl\<close> an error thrown during the render. All that precedes the test of
  \<open>categoryMeta\<close> only computes the local values above and throws nothing.
\<close>

definition Infrastructure ::
  "Collaborators \<Rightarrow> InfrastructureProps \<Rightarrow> js_error + Rendered option" where
  "Infrastructure c p =
     (case categoryMeta c of
        None \<Rightarrow> Inr None
      | Some cm \<Rightarrow>
          (case renderAttributes c p (attributes cm) of
             Inl e \<Rightarrow> Inl e
           | Inr ss \<Rightarrow>
               Inr (Some \<lparr>header_title = category_name cm,
                          header_description = category_description cm,
                          sections = ss\<rparr>)))"

section \<open>An example render\<close>

text \<open>
  Concrete collaborators for the instances below: a paid plan, no add-on selected, the
  CPU query still loading, the memory query resolved with no point, the disk IO query
  resolved with the points 5 and 9; days in UTC, now 09:30 on 10 May 2023.
\<close>

definition example_attributes :: "CategoryAttribute list" where
  "example_attributes =
     [\<lparr>anchor = ''cpu'', key = ''max_cpu_usage'', attribute = ''max_cpu_usage'',
       name = ''CPU'', unit = ''percentage'', chartPrefix = Some ''Max '',
       chartDescription = ''CPU usage of your server''\<rparr>,
      \<lparr>anchor = ''ram'', key = ''ram_usage'', attribute = ''ram_usage'',
       name = ''Memory'', unit = ''percentage'', chartPrefix = Some ''Max '',
       chartDescription = ''Memory usage of your server''\<rparr>,
      \<lparr>anchor = ''diskIO'', key = ''disk_io_consumption'', attribute = ''disk_io_consumption'',
       name = ''Disk IO bandwidth'', unit = ''percentage'', chartPrefix = None,
       chartDescription = ''Disk IO consumed''\<rparr>]"

definition example_dates :: "(string \<times> int) list" where
  "example_dates =
     [(''2023-05-01'', 1682899200000),
      (''2023-05-03'', 1683072000000),
      (''2023-05-03T00:30'', 1683073800000),
      (''2023-05-09'', 1683590400000),
      (''2023-05-10'', 1683676800000),
      (''2023-05-10T09:00'', 1683709200000),
      (''2023-05-11'', 1683763200000),
      (''2023-05-31'', 1685491200000)]"

definition example_series :: "DataPoint list" where
  "example_series =
     [[(''period_start'', JNumber (Fin 1683590400000)), (''disk_io_consumption'', JNumber (Fin 5))],
      [(''period_start'', JNumber (Fin 1683676800000)), (''disk_io_consumption'', JNumber (Fin 9))]]"

definition example :: Collaborators where
  "example =
     \<lparr>useProjectSubscriptionV2Query = (\<lambda>_. Some \<lparr>plan = Some \<lparr>plan_id = ''pro''\<rparr>\<rparr>),
      useResourceWarningsQuery = Some [],
      useProjectAddonsQuery = (\<lambda>_. Some \<lparr>selected_addons = []\<rparr>),
      useInfraMonitoringQuery =
        (\<lambda>v. if var_attribute v = ''max_cpu_usage''
               then \<lparr>query_data = None, query_isLoading = True\<rparr>
             else if var_attribute v = ''ram_usage''
               then \<lparr>query_data = Some \<lparr>data = Some []\<rparr>, query_isLoading = False\<rparr>
             else \<lparr>query_data = Some \<lparr>data = Some example_series\<rparr>, query_isLoading = False\<rparr>),
      USAGE_CATEGORIES =
        [\<lparr>category_key = ''infra'', category_name = ''Infrastructure'',
          category_description = ''Usage statistics of your server instance'',
          attributes = example_attributes\<rparr>],
      getUpgradeUrl = (\<lambda>ref _. ''/project/'' @ ref @ ''/settings/billing/subscription''),
      dayjs_parse =
        (\<lambda>s. case map_of example_dates s of None \<Rightarrow> InvalidDate | Some t \<Rightarrow> Instant t),
      dayjs_now = 1683711000000,
      dayjs_startOfDay = (\<lambda>t. t - t mod 86400000)\<rparr>"

text \<open>The same with a compute add-on whose baseline and maximum throughput agree.\<close>

definition example_fixed_throughput :: Collaborators where
  "example_fixed_throughput =
     example\<lparr>useProjectAddonsQuery :=
       (\<lambda>_. Some \<lparr>selected_addons =
          [\<lparr>addon_type = OtherAddon, variant = Some \<lparr>variant_name = ''7 days'', meta = None\<rparr>\<rparr>,
           \<lparr>addon_type = ComputeInstance,
            variant = Some \<lparr>variant_name = ''4XL'',
              meta = Some \<lparr>baseline_disk_io_mbs = Some 4750, max_disk_io_mbs = Some 4750,
                            cpu_cores = Some 16, cpu_dedicated = Some True,
                            memory_gb = Some 64\<rparr>\<rparr>\<rparr>]\<rparr>)\<rparr>"

definition example_props :: InfrastructureProps where
  "example_props =
     \<lparr>projectRef = ''abcdefghijklmnopqrst'', startDate = Some ''2023-05-01'',
      endDate = Some ''2023-05-11'', currentBillingCycleSelected = True\<rparr>"

section \<open>Auxiliary facts\<close>

text \<open>A section is built for each of the three keys that \<open>chartMeta\<close> holds.\<close>

lemma renderAttribute_metric:
  assumes "key a \<in> {''max_cpu_usage'', ''ram_usage'', ''disk_io_consumption''}"
  shows "\<exists>s. renderAttribute c p a = Inr s"
  using assms by (auto simp: renderAttribute_def chartIsLoading_def chartMeta_def)

lemma renderAttribute_fields:
  assumes "renderAttribute c p a = Inr s"
  shows "sec_disk_io s =
           (if key a = ''disk_io_consumption'' then Some (diskIOSection c p) else None)"
    and "sec_cpu_warnings s = (if key a = ''max_cpu_usage'' then Some (cpuWarnings c p) else None)"
    and "sec_ram_warnings s = (if key a = ''ram_usage'' then Some (ramWarnings c p) else None)"
    and "sec_section s = a"
  using assms by (auto simp: renderAttribute_def split: sum.splits)

text \<open>Every section of a finished loop is the section of one of the attributes.\<close>

lemma renderAttributes_sections:
  "renderAttributes c p as = Inr ss \<Longrightarrow> s \<in> set ss \<Longrightarrow>
     \<exists>a \<in> set as. renderAttribute c p a = Inr s"
  by (induction as arbitrary: ss) (auto split: sum.splits)

lemma Infrastructure_sections:
  "Infrastructure c p = Inr (Some r) \<Longrightarrow>
     \<exists>cm. categoryMeta c = Some cm \<and> renderAttributes c p (attributes cm) = Inr (sections r)"
  by (auto simp: Infrastructure_def split: option.splits sum.splits)

text \<open>The entry of \<open>chartMeta\<close> under a metric key comes from the query of that metric.\<close>

lemma metric_chartMeta:
  assumes "k \<in> {''max_cpu_usage'', ''ram_usage'', ''disk_io_consumption''}"
  shows "chartMeta c p k =
           Own \<lparr>meta_isLoading =
                  query_isLoading (useInfraMonitoringQuery c (infraMonitoringVariables c p k)),
                meta_data =
                  data_or_empty
                    (query_data (useInfraMonitoringQuery c (infraMonitoringVariables c p k)))\<rparr>"
  using assms by (auto simp: chartMeta_def cpuUsage_def memoryUsage_def ioBudget_def)

text \<open>The arguments of the metric queries do not depend on what the queries return.\<close>

lemma infraMonitoringVariables_hook:
  "infraMonitoringVariables (c\<lparr>useInfraMonitoringQuery := f\<rparr>) p k
     = infraMonitoringVariables c p k"
  by (simp add: infraMonitoringVariables_def interval_def dateFormat_def
      interval_dateFormat_def diffInHours_def split: option.splits)

subsection \<open>The maximum of a series of numbers\<close>

lemma fold_highest_Fin:
  "fold (\<lambda>x highest. if js_less highest x then x else highest) (map Fin vs) (Fin m)
     = Fin (fold max vs m)"
  by (induction vs arbitrary: m) (auto simp: max_def)

lemma Math_max_finite: "Math_max (map Fin vs @ [Fin 0]) = Fin (Max (insert 0 (set vs)))"
proof -
  have "fold (\<lambda>x highest. if js_less highest x then x else highest) (map Fin (vs @ [0])) NegInf
          = Fin (Max (set (vs @ [0])))"
  proof (cases vs)
    case Nil
    then show ?thesis by simp
  next
    case (Cons v ws)
    then show ?thesis
      using fold_highest_Fin[of "ws @ [0]" v] Max.set_eq_fold[of v "ws @ [0]"] by simp
  qed
  moreover have "NaN \<notin> set (map Fin vs @ [Fin 0])" by auto
  ultimately show ?thesis by (simp add: Math_max_def)
qed

text \<open>
  When every point of the disk IO series carries a finite number, the highest
  consumption is the largest of these numbers and 0.
\<close>

lemma highest_consumption_of_numbers:
  assumes "map (\<lambda>x. get_prop x ''disk_io_consumption'')
             (data_or_empty (query_data (ioBudget c p))) = map (\<lambda>v. JNumber (Fin v)) vs"
  shows "highestIoBudgetConsumption c p = Fin (Max (insert 0 (set vs)))"
proof -
  have "map (\<lambda>x. Number (nullish (JNumber (Number (get_prop x ''disk_io_consumption'')))
                                  (JNumber (Fin 0))))
            (data_or_empty (query_data (ioBudget c p)))
        = map (\<lambda>v. Number (JNumber (Number v)))
            (map (\<lambda>x. get_prop x ''disk_io_consumption'')
               (data_or_empty (query_data (ioBudget c p))))"
    by (simp add: nullish_def)
  also have "\<dots> = map Fin vs"
    unfolding assms by simp
  finally show ?thesis
    by (simp add: highestIoBudgetConsumption_def Math_max_finite)
qed

text \<open>The values 3, 7, 2 give 7; a series with no point, or no series at all, gives 0.\<close>

lemma highest_consumption_examples:
  "highestIoBudgetConsumption
     (c\<lparr>useInfraMonitoringQuery :=
          \<lambda>_. \<lparr>query_data =
                   Some \<lparr>data = Some [[(''disk_io_consumption'', JNumber (Fin 3))],
                                      [(''disk_io_consumption'', JNumber (Fin 7))],
                                      [(''disk_io_consumption'', JNumber (Fin 2))]]\<rparr>,
                query_isLoading = False\<rparr>\<rparr>) p = Fin 7"
  "highestIoBudgetConsumption
     (c\<lparr>useInfraMonitoringQuery :=
          \<lambda>_. \<lparr>query_data = Some \<lparr>data = Some []\<rparr>, query_isLoading = False\<rparr>\<rparr>) p
     = Fin 0"
  "highestIoBudgetConsumption
     (c\<lparr>useInfraMonitoringQuery :=
          \<lambda>_. \<lparr>query_data = None, query_isLoading = True\<rparr>\<rparr>) p = Fin 0"
  by (simp_all add: highestIoBudgetConsumption_def ioBudget_def data_or_empty_def data_of_def
      get_prop_def nullish_def Math_max_def)

subsection \<open>The interval for two dates that parse\<close>

lemma absFloor_le_48:
  "absFloor d MILLISECONDS_A_HOUR \<le> 48 \<longleftrightarrow> d < 49 * MILLISECONDS_A_HOUR"
  unfolding absFloor_def MILLISECONDS_A_HOUR_def by auto

text \<open>
  With both dates present, not empty and readable, the interval is hourly exactly when
  the end is less than 49 hours after the start: the hours are counted whole.
\<close>

lemma interval_of_parsed_dates:
  assumes "startDate p = Some s" "endDate p = Some e" "s \<noteq> []" "e \<noteq> []"
    and "dayjs_parse c s = Instant a" "dayjs_parse c e = Instant b"
  shows "interval_dateFormat c p =
           (if b - a < 49 * MILLISECONDS_A_HOUR then (Interval_1h, ''h a'')
            else (Interval_1d, ''DD MMM''))"
  using assms absFloor_le_48[of "b - a"]
  by (auto simp: interval_dateFormat_def truthy_def diffInHours_def js_le_def)

text \<open>A date that is missing, empty or unreadable leaves the interval daily.\<close>

lemma interval_daily_by_default:
  assumes "\<not> truthy (startDate p) \<or> \<not> truthy (endDate p)
           \<or> (\<exists>s. startDate p = Some s \<and> dayjs_parse c s = InvalidDate)
           \<or> (\<exists>e. endDate p = Some e \<and> dayjs_parse c e = InvalidDate)"
  shows "interval_dateFormat c p = (Interval_1d, ''DD MMM'')"
  using assms
  by (auto simp: interval_dateFormat_def truthy_def diffInHours_def js_le_def
      split: option.splits Dayjs.splits)

subsection \<open>A catalog of metric attributes renders\<close>

lemma renderAttributes_metrics:
  assumes "\<forall>a \<in> set as. key a \<in> {''max_cpu_usage'', ''ram_usage'', ''disk_io_consumption''}"
  shows "\<exists>ss. renderAttributes c p as = Inr ss \<and> map sec_section ss = as"
  using assms
proof (induction as)
  case Nil
  then show ?case by simp
next
  case (Cons a as)
  then obtain s ss where "renderAttribute c p a = Inr s"
      and "renderAttributes c p as = Inr ss" and "map sec_section ss = as"
    using renderAttribute_metric[of a c p] by auto
  then show ?case by (simp add: renderAttribute_fields(4))
qed

text \<open>
  When every attribute of the "infra" category has one of the three metric keys, the
  render gives the header and one section per attribute, in the catalog's order.
\<close>

lemma renders_every_metric_attribute:
  assumes "categoryMeta c = Some cm"
    and "\<forall>a \<in> set (attributes cm).
           key a \<in> {''max_cpu_usage'', ''ram_usage'', ''disk_io_consumption''}"
  shows "\<exists>r. Infrastructure c p = Inr (Some r) \<and> header_title r = category_name cm \<and>
           header_description r = category_description cm \<and>
           map sec_section (sections r) = attributes cm"
  using renderAttributes_metrics[OF assms(2), of c p] assms(1)
  by (auto simp: Infrastructure_def)

subsection \<open>The chart bodies of a catalog of metric attributes\<close>

text \<open>
  The section of an attribute with a metric key keeps the attribute, and its chart body
  is chosen from the answer to the query of that metric.
\<close>

lemma renderAttribute_chart:
  assumes "key a \<in> {''max_cpu_usage'', ''ram_usage'', ''disk_io_consumption''}"
  shows "\<exists>s. renderAttribute c p a = Inr s \<and> sec_section s = a \<and>
           sec_chart s =
             chartBody
               (query_isLoading (useInfraMonitoringQuery c (infraMonitoringVariables c p (key a))))
               a
               (data_or_empty
                  (query_data (useInfraMonitoringQuery c (infraMonitoringVariables c p (key a)))))"
  using metric_chartMeta[OF assms, of c p]
  by (simp add: renderAttribute_def chartIsLoading_def chartData_def)

lemma renderAttributes_charts:
  assumes "\<forall>a \<in> set as. key a \<in> {''max_cpu_usage'', ''ram_usage'', ''disk_io_consumption''}"
  shows "\<exists>ss. renderAttributes c p as = Inr ss \<and> map sec_section ss = as \<and>
           map sec_chart ss =
             map (\<lambda>a. chartBody
                    (query_isLoading
                       (useInfraMonitoringQuery c (infraMonitoringVariables c p (key a))))
                    a
                    (data_or_empty
                       (query_data
                          (useInfraMonitoringQuery c (infraMonitoringVariables c p (key a))))))
               as"
  using assms
proof (induction as)
  case Nil
  then show ?case by simp
next
  case (Cons a as)
  from Cons.prems obtain s where "renderAttribute c p a = Inr s" "sec_section s = a"
    "sec_chart s =
       chartBody
         (query_isLoading (useInfraMonitoringQuery c (infraMonitoringVariables c p (key a))))
         a
         (data_or_empty
            (query_data (useInfraMonitoringQuery c (infraMonitoringVariables c p (key a)))))"
    using renderAttribute_chart[of a c p] by auto
  moreover from Cons obtain ss where "renderAttributes c p as = Inr ss"
    "map sec_section ss = as"
    "map sec_chart ss =
       map (\<lambda>a. chartBody
              (query_isLoading
                 (useInfraMonitoringQuery c (infraMonitoringVariables c p (key a))))
              a
              (data_or_empty
                 (query_data
                    (useInfraMonitoringQuery c (infraMonitoringVariables c p (key a))))))
         as"
    by auto
  ultimately show ?case by simp
qed

text \<open>The same for the whole render.\<close>

lemma Infrastructure_charts:
  assumes "categoryMeta c = Some cm"
    and "\<forall>a \<in> set (attributes cm).
           key a \<in> {''max_cpu_usage'', ''ram_usage'', ''disk_io_consumption''}"
  shows "\<exists>r. Infrastructure c p = Inr (Some r) \<and>
           map sec_section (sections r) = attributes cm \<and>
           map sec_chart (sections r) =
             map (\<lambda>a. chartBody
                    (query_isLoading
                       (useInfraMonitoringQuery c (infraMonitoringVariables c p (key a))))
                    a
                    (data_or_empty
                       (query_data
                          (useInfraMonitoringQuery c (infraMonitoringVariables c p (key a))))))
               (attributes cm)"
  using renderAttributes_charts[OF assms(2), of c p] assms(1)
  by (auto simp: Infrastructure_def)

text \<open>The catalog does not depend on what the metric queries return.\<close>

lemma categoryMeta_hook: "categoryMeta (c\<lparr>useInfraMonitoringQuery := f\<rparr>) = categoryMeta c"
  by (simp add: categoryMeta_def)

section \<open>The claims\<close>

text \<open>
  C1 (the highest disk IO consumption is the maximum over the series, a point whose
  value is missing or not a number counting as 0): the code does not do this. For the
  series with the values 3, missing, 2 the result is NaN, not 3: \<open>Number(undefined)\<close>
  is NaN, \<open>NaN ?? 0\<close> is NaN, and \<open>Math.max\<close> of a NaN is NaN.
\<close>

theorem highest_consumption_missing_value:
  "highestIoBudgetConsumption
     (c\<lparr>useInfraMonitoringQuery :=
          \<lambda>_. \<lparr>query_data =
                   Some \<lparr>data = Some [[(''disk_io_consumption'', JNumber (Fin 3))],
                                      [(''period_start'', JNumber (Fin 2))],
                                      [(''disk_io_consumption'', JNumber (Fin 2))]]\<rparr>,
                query_isLoading = False\<rparr>\<rparr>) p = NaN"
  by (simp add: highestIoBudgetConsumption_def ioBudget_def data_or_empty_def data_of_def
      get_prop_def nullish_def Math_max_def)

text \<open>
  C2 (every attribute of the "infra" category renders, one without a data source with
  the empty-state panel): the code does not do this. With an attribute whose key is
  not a key of \<open>chartMeta\<close> the series is read safely (it is empty), but reading the
  loading flag throws, and the whole render fails with a TypeError.
\<close>

theorem render_attribute_without_data_source:
  "chartData c p
     \<lparr>anchor = ''dbSize'', key = ''db_size'', attribute = ''total_db_size_bytes'',
      name = ''Database size'', unit = ''bytes'', chartPrefix = None,
      chartDescription = ''Size of the database''\<rparr> = [] \<and>
   Infrastructure
     (c\<lparr>USAGE_CATEGORIES :=
          [\<lparr>category_key = ''infra'', category_name = ''Infrastructure'',
            category_description = ''Usage statistics of your server instance'',
            attributes =
              [\<lparr>anchor = ''dbSize'', key = ''db_size'', attribute = ''total_db_size_bytes'',
                name = ''Database size'', unit = ''bytes'', chartPrefix = None,
                chartDescription = ''Size of the database''\<rparr>]\<rparr>]\<rparr>) p = Inl TypeError"
  by (simp add: Infrastructure_def categoryMeta_def renderAttribute_def chartIsLoading_def
      chartData_def chartMeta_def Object_prototype_def)

text \<open>
  C3 (a difference of at most 48 hours gives the hourly interval, a difference of more
  than 48 hours or a missing bound the daily one): the code does not do this between
  48 and 49 hours. From 1 May 2023 00:00 to 3 May 2023 00:30 are 48 hours and a half;
  dayjs counts 48 whole hours, the test \<open>diffInHours <= 48\<close> holds and the interval is
  hourly, against the claim and against the comment over the test.
\<close>

theorem interval_hourly_beyond_48_hours:
  "interval_dateFormat
     (c\<lparr>dayjs_parse :=
          \<lambda>s. if s = ''2023-05-01T00:00:00Z'' then Instant 1682899200000
               else if s = ''2023-05-03T00:30:00Z'' then Instant 1683073800000
               else InvalidDate\<rparr>)
     (p\<lparr>startDate := Some ''2023-05-01T00:00:00Z'', endDate := Some ''2023-05-03T00:30:00Z''\<rparr>)
   = (Interval_1h, ''h a'')"
  by (simp add: interval_dateFormat_def truthy_def diffInHours_def absFloor_def
      MILLISECONDS_A_HOUR_def js_le_def)

text \<open>
  C4: \<open>hasLatest\<close> holds exactly when the end of the range, as dayjs reads it, is
  strictly after the start of the current day (never for an unreadable date); and the
  latest consumption is the number of the last point of the disk IO series when
  \<open>hasLatest\<close> holds and the series is not empty, and 0 otherwise.
\<close>

theorem has_latest_and_latest_consumption:
  "hasLatest c p =
     (case dayjs c (endDate p) of
        InvalidDate \<Rightarrow> False
      | Instant e \<Rightarrow> dayjs_startOfDay c (dayjs_now c) < e)
   \<and> latestIoBudgetConsumption c p =
     (if hasLatest c p \<and> data_or_empty (query_data (ioBudget c p)) \<noteq> []
      then Number (get_prop (last (data_or_empty (query_data (ioBudget c p))))
                     ''disk_io_consumption'')
      else Fin 0)"
  by (auto simp: hasLatest_def latestIoBudgetConsumption_def lastPoint_def slice_last_def
      data_or_empty_def startOf_day_def dayjs_def split: Dayjs.splits option.splits)

text \<open>
  In the example (now 09:30 on 10 May, series 5 and 9): an end at 09:00 today has the
  latest value 9; an end at 00:00 today, or yesterday, has none, and the latest
  consumption is 0.
\<close>

theorem has_latest_and_latest_consumption_witness:
  "hasLatest example (example_props\<lparr>endDate := Some ''2023-05-10T09:00''\<rparr>) \<and>
   latestIoBudgetConsumption example (example_props\<lparr>endDate := Some ''2023-05-10T09:00''\<rparr>)
     = Fin 9 \<and>
   \<not> hasLatest example (example_props\<lparr>endDate := Some ''2023-05-10''\<rparr>) \<and>
   \<not> hasLatest example (example_props\<lparr>endDate := Some ''2023-05-09''\<rparr>) \<and>
   latestIoBudgetConsumption example (example_props\<lparr>endDate := Some ''2023-05-09''\<rparr>)
     = Fin 0"
  using
    has_latest_and_latest_consumption
      [of example "example_props\<lparr>endDate := Some ''2023-05-10T09:00''\<rparr>"]
    has_latest_and_latest_consumption
      [of example "example_props\<lparr>endDate := Some ''2023-05-09''\<rparr>"]
  by (simp add: hasLatest_def latestIoBudgetConsumption_def lastPoint_def slice_last_def
      data_of_def ioBudget_def infraMonitoringVariables_def dayjs_def startOf_day_def
      get_prop_def example_def example_props_def example_dates_def example_series_def)

text \<open>
  C5: when every attribute of the "infra" category has one of the three metric keys,
  the component renders one section per attribute, and the chart body of each section
  is exactly one of three: the loading placeholder while the query of that attribute's
  metric is loading, else the bar chart of the series when the series is not empty,
  else the empty-state panel. Nothing else decides it: whatever the hook returns for
  the other queries, the render still succeeds and the chart body of a section is the
  same as long as the answer to the query of its own metric is.
\<close>

theorem chart_body_state:
  assumes "categoryMeta c = Some cm"
    and "\<forall>a \<in> set (attributes cm).
           key a \<in> {''max_cpu_usage'', ''ram_usage'', ''disk_io_consumption''}"
  shows "\<exists>r. Infrastructure c p = Inr (Some r) \<and>
           map sec_section (sections r) = attributes cm \<and>
           map sec_chart (sections r) =
             map (\<lambda>a. let q = useInfraMonitoringQuery c (infraMonitoringVariables c p (key a)) in
                      if query_isLoading q then ShimmeringLoaders
                      else if data_or_empty (query_data q) \<noteq> []
                        then UsageBarChart (chartName a) (unit a) (attribute a)
                               (data_or_empty (query_data q))
                      else NoDataPanel)
               (attributes cm) \<and>
           (\<forall>f. \<exists>r'. Infrastructure (c\<lparr>useInfraMonitoringQuery := f\<rparr>) p = Inr (Some r') \<and>
                  map sec_section (sections r') = attributes cm \<and>
                  (\<forall>i < length (attributes cm).
                     f (infraMonitoringVariables c p (key (attributes cm ! i)))
                       = useInfraMonitoringQuery c
                           (infraMonitoringVariables c p (key (attributes cm ! i))) \<longrightarrow>
                     sec_chart (sections r' ! i) = sec_chart (sections r ! i)))"
proof -
  let ?body = "\<lambda>c a. chartBody
      (query_isLoading (useInfraMonitoringQuery c (infraMonitoringVariables c p (key a))))
      a
      (data_or_empty
         (query_data (useInfraMonitoringQuery c (infraMonitoringVariables c p (key a)))))"
  obtain r where r: "Infrastructure c p = Inr (Some r)"
      "map sec_section (sections r) = attributes cm"
      "map sec_chart (sections r) = map (?body c) (attributes cm)"
    using Infrastructure_charts[OF assms, of p] by blast
  have len: "length (sections r) = length (attributes cm)"
    using r(2) by (metis length_map)
  have other: "\<exists>r'. Infrastructure (c\<lparr>useInfraMonitoringQuery := f\<rparr>) p = Inr (Some r') \<and>
         map sec_section (sections r') = attributes cm \<and>
         (\<forall>i < length (attributes cm).
            f (infraMonitoringVariables c p (key (attributes cm ! i)))
              = useInfraMonitoringQuery c
                  (infraMonitoringVariables c p (key (attributes cm ! i))) \<longrightarrow>
            sec_chart (sections r' ! i) = sec_chart (sections r ! i))" for f
  proof -
    let ?c' = "c\<lparr>useInfraMonitoringQuery := f\<rparr>"
    have "categoryMeta ?c' = Some cm"
      using assms(1) by (simp add: categoryMeta_hook)
    then obtain r' where r': "Infrastructure ?c' p = Inr (Some r')"
        "map sec_section (sections r') = attributes cm"
        "map sec_chart (sections r') = map (?body ?c') (attributes cm)"
      using Infrastructure_charts[OF _ assms(2), of ?c' p] by blast
    have len': "length (sections r') = length (attributes cm)"
      using r'(2) by (metis length_map)
    have "sec_chart (sections r' ! i) = sec_chart (sections r ! i)"
      if i: "i < length (attributes cm)"
        and same: "f (infraMonitoringVariables c p (key (attributes cm ! i)))
          = useInfraMonitoringQuery c (infraMonitoringVariables c p (key (attributes cm ! i)))"
      for i
    proof -
      have "sec_chart (sections r' ! i) = map sec_chart (sections r') ! i"
        using i len' by simp
      also have "\<dots> = ?body ?c' (attributes cm ! i)"
        using i by (simp add: r'(3))
      also have "\<dots> = ?body c (attributes cm ! i)"
        using same by (simp add: infraMonitoringVariables_hook)
      also have "\<dots> = map sec_chart (sections r) ! i"
        using i by (simp add: r(3))
      also have "\<dots> = sec_chart (sections r ! i)"
        using i len by simp
      finally show ?thesis .
    qed
    with r'(1,2) show ?thesis by blast
  qed
  have "map (?body c) (attributes cm) =
      map (\<lambda>a. let q = useInfraMonitoringQuery c (infraMonitoringVariables c p (key a)) in
               if query_isLoading q then ShimmeringLoaders
               else if data_or_empty (query_data q) \<noteq> []
                 then UsageBarChart (chartName a) (unit a) (attribute a)
                        (data_or_empty (query_data q))
               else NoDataPanel)
        (attributes cm)"
    by (simp add: chartBody_def Let_def)
  with r other show ?thesis by (intro exI[of _ r]) simp
qed

text \<open>
  In the example render the three states stand side by side: CPU is loading, memory
  has no point, disk IO has two.
\<close>

theorem chart_body_state_witness:
  "\<exists>r. Infrastructure example example_props = Inr (Some r) \<and>
      map (\<lambda>s. key (sec_section s)) (sections r)
        = [''max_cpu_usage'', ''ram_usage'', ''disk_io_consumption''] \<and>
      map sec_chart (sections r) =
        [ShimmeringLoaders, NoDataPanel,
         UsageBarChart ''Disk IO bandwidth'' ''percentage'' ''disk_io_consumption''
           example_series]"
proof -
  let ?cm = "\<lparr>category_key = ''infra'', category_name = ''Infrastructure'',
    category_description = ''Usage statistics of your server instance'',
    attributes = example_attributes\<rparr>"
  have cat: "categoryMeta example = Some ?cm"
    by (simp add: categoryMeta_def example_def)
  have metric: "\<forall>a \<in> set (attributes ?cm).
      key a \<in> {''max_cpu_usage'', ''ram_usage'', ''disk_io_consumption''}"
    by (simp add: example_attributes_def)
  have query:
    "useInfraMonitoringQuery example (infraMonitoringVariables example example_props k) =
       (if k = ''max_cpu_usage'' then \<lparr>query_data = None, query_isLoading = True\<rparr>
        else if k = ''ram_usage''
          then \<lparr>query_data = Some \<lparr>data = Some []\<rparr>, query_isLoading = False\<rparr>
        else \<lparr>query_data = Some \<lparr>data = Some example_series\<rparr>, query_isLoading = False\<rparr>)"
    for k
    by (simp add: example_def infraMonitoringVariables_def)
  have series: "example_series \<noteq> []"
    by (simp add: example_series_def)
  from chart_body_state[OF cat metric, of example_props]
  obtain r where r: "Infrastructure example example_props = Inr (Some r)"
      "map sec_section (sections r) = attributes ?cm"
      "map sec_chart (sections r) =
         map (\<lambda>a. let q = useInfraMonitoringQuery example
                             (infraMonitoringVariables example example_props (key a)) in
                  if query_isLoading q then ShimmeringLoaders
                  else if data_or_empty (query_data q) \<noteq> []
                    then UsageBarChart (chartName a) (unit a) (attribute a)
                           (data_or_empty (query_data q))
                  else NoDataPanel)
           (attributes ?cm)"
    by blast
  have "map (\<lambda>s. key (sec_section s)) (sections r) = map key (map sec_section (sections r))"
    by simp
  also have "\<dots> = [''max_cpu_usage'', ''ram_usage'', ''disk_io_consumption'']"
    unfolding r(2) by (simp add: example_attributes_def)
  finally have keys: "map (\<lambda>s. key (sec_section s)) (sections r)
      = [''max_cpu_usage'', ''ram_usage'', ''disk_io_consumption'']" .
  have "map sec_chart (sections r) =
      [ShimmeringLoaders, NoDataPanel,
       UsageBarChart ''Disk IO bandwidth'' ''percentage'' ''disk_io_consumption''
         example_series]"
    unfolding r(3) using series
    by (simp add: query example_attributes_def data_or_empty_def data_of_def chartName_def)
  with r(1) keys show ?thesis by (intro exI[of _ r]) simp
qed

text \<open>
  C6: when no selected add-on is a compute instance, the compute specs are the fixed
  default: baseline disk IO 87 Mbps, maximum disk IO 2085 Mbps, 2 CPU cores, a
  dedicated CPU, 1 GB of memory.
\<close>

theorem default_compute_specs:
  assumes "\<forall>addon \<in> set (selectedAddons c p). addon_type addon \<noteq> ComputeInstance"
  shows "currentComputeInstanceSpecs c p =
           \<lparr>baseline_disk_io_mbs = Some 87, max_disk_io_mbs = Some 2085, cpu_cores = Some 2,
            cpu_dedicated = Some True, memory_gb = Some 1\<rparr>"
proof -
  have "computeInstance c p = None"
    using assms by (simp add: computeInstance_def getAddons_def find_None_iff)
  then show ?thesis
    by (simp add: currentComputeInstanceSpecs_def defaultComputeInstanceSpecs_def)
qed

text \<open>With one selected add-on of another kind the specs are the default.\<close>

theorem default_compute_specs_witness:
  "map addon_type
     (selectedAddons
        (example\<lparr>useProjectAddonsQuery :=
           (\<lambda>_. Some \<lparr>selected_addons =
              [\<lparr>addon_type = OtherAddon,
                variant = Some \<lparr>variant_name = ''7 days'', meta = None\<rparr>\<rparr>]\<rparr>)\<rparr>)
        example_props) = [OtherAddon] \<and>
   currentComputeInstanceSpecs
     (example\<lparr>useProjectAddonsQuery :=
        (\<lambda>_. Some \<lparr>selected_addons =
           [\<lparr>addon_type = OtherAddon,
             variant = Some \<lparr>variant_name = ''7 days'', meta = None\<rparr>\<rparr>]\<rparr>)\<rparr>)
     example_props =
     \<lparr>baseline_disk_io_mbs = Some 87, max_disk_io_mbs = Some 2085, cpu_cores = Some 2,
      cpu_dedicated = Some True, memory_gb = Some 1\<rparr>"
  using default_compute_specs[of
      "example\<lparr>useProjectAddonsQuery :=
         (\<lambda>_. Some \<lparr>selected_addons =
            [\<lparr>addon_type = OtherAddon,
              variant = Some \<lparr>variant_name = ''7 days'', meta = None\<rparr>\<rparr>]\<rparr>)\<rparr>" example_props]
  by (simp add: selectedAddons_def example_def)

text \<open>
  C7: when every attribute of the "infra" category has one of the three metric keys,
  the component renders, for the disk IO attribute of the catalog, a section with the
  disk IO block, and only there. When the baseline and the maximum throughput of the
  compute specs are equal, the sentence of the block is the fixed-throughput one and
  the overview has no "Daily burst time limit" row; when they differ, the sentence is
  the burst-then-revert one and the row is there with the fixed text "30 mins".
\<close>

theorem burst_sentence_selection:
  assumes "categoryMeta c = Some cm"
    and "\<forall>a \<in> set (attributes cm).
           key a \<in> {''max_cpu_usage'', ''ram_usage'', ''disk_io_consumption''}"
    and "a \<in> set (attributes cm)"
    and "key a = ''disk_io_consumption''"
  shows "\<exists>r s d. Infrastructure c p = Inr (Some r) \<and> s \<in> set (sections r) \<and>
           sec_section s = a \<and> sec_disk_io s = Some d \<and>
           (baseline_disk_io_mbs (currentComputeInstanceSpecs c p)
              = max_disk_io_mbs (currentComputeInstanceSpecs c p) \<longrightarrow>
            io_sentence d = FixedThroughput (max_disk_io_mbs (currentComputeInstanceSpecs c p)) \<and>
            ov_burst_limit (io_overview d) = None) \<and>
           (baseline_disk_io_mbs (currentComputeInstanceSpecs c p)
              \<noteq> max_disk_io_mbs (currentComputeInstanceSpecs c p) \<longrightarrow>
            io_sentence d =
              BurstThenRevert (max_disk_io_mbs (currentComputeInstanceSpecs c p))
                (baseline_disk_io_mbs (currentComputeInstanceSpecs c p)) \<and>
            ov_burst_limit (io_overview d) = Some ''30 mins'') \<and>
           (\<forall>s' \<in> set (sections r).
              key (sec_section s') \<noteq> ''disk_io_consumption'' \<longrightarrow> sec_disk_io s' = None)"
proof -
  obtain r where r: "Infrastructure c p = Inr (Some r)"
      "map sec_section (sections r) = attributes cm"
    using renders_every_metric_attribute[OF assms(1,2), of p] by blast
  have rendered: "\<exists>a'. renderAttribute c p a' = Inr s'" if "s' \<in> set (sections r)" for s'
  proof -
    have "renderAttributes c p (attributes cm) = Inr (sections r)"
      using Infrastructure_sections[OF r(1)] assms(1) by auto
    then show ?thesis
      using renderAttributes_sections that by blast
  qed
  have "a \<in> set (map sec_section (sections r))"
    using assms(3) r(2) by simp
  then obtain s where s: "s \<in> set (sections r)" "sec_section s = a"
    by auto
  obtain a' where a': "renderAttribute c p a' = Inr s"
    using rendered[OF s(1)] by blast
  have "a' = a"
    using renderAttribute_fields(4)[OF a'] s(2) by simp
  then have io: "sec_disk_io s = Some (diskIOSection c p)"
    using renderAttribute_fields(1)[OF a'] assms(4) by simp
  have none: "sec_disk_io s' = None"
    if mem: "s' \<in> set (sections r)"
      and other: "key (sec_section s') \<noteq> ''disk_io_consumption''" for s'
  proof -
    obtain b where b: "renderAttribute c p b = Inr s'"
      using rendered[OF mem] by blast
    show ?thesis
      using renderAttribute_fields(1)[OF b] renderAttribute_fields(4)[OF b] other by simp
  qed
  show ?thesis
    using r(1) s io none
    by (intro exI[of _ r] exI[of _ s] exI[of _ "diskIOSection c p"])
       (simp add: diskIOSection_def throughputSentence_def overview_def Let_def)
qed

text \<open>
  The example has the default specs (87 against 2085): burst sentence and row. With
  the add-on of equal throughputs: fixed sentence, no row.
\<close>

theorem burst_sentence_selection_witness:
  "(\<exists>r s d. Infrastructure example example_props = Inr (Some r) \<and> s \<in> set (sections r) \<and>
          sec_section s = example_attributes ! 2 \<and> sec_disk_io s = Some d \<and>
          io_sentence d = BurstThenRevert (Some 2085) (Some 87) \<and>
          ov_burst_limit (io_overview d) = Some ''30 mins'') \<and>
   (\<exists>r s d. Infrastructure example_fixed_throughput example_props = Inr (Some r) \<and>
          s \<in> set (sections r) \<and>
          sec_section s = example_attributes ! 2 \<and> sec_disk_io s = Some d \<and>
          io_sentence d = FixedThroughput (Some 4750) \<and>
          ov_burst_limit (io_overview d) = None)"
proof -
  let ?cm = "\<lparr>category_key = ''infra'', category_name = ''Infrastructure'',
    category_description = ''Usage statistics of your server instance'',
    attributes = example_attributes\<rparr>"
  have cat: "categoryMeta example = Some ?cm"
    and cat_fixed: "categoryMeta example_fixed_throughput = Some ?cm"
    by (simp_all add: categoryMeta_def example_fixed_throughput_def example_def)
  have metric: "\<forall>a \<in> set (attributes ?cm).
      key a \<in> {''max_cpu_usage'', ''ram_usage'', ''disk_io_consumption''}"
    by (simp add: example_attributes_def)
  have mem: "example_attributes ! 2 \<in> set (attributes ?cm)"
    and io: "key (example_attributes ! 2) = ''disk_io_consumption''"
    by (simp_all add: example_attributes_def)
  have default: "currentComputeInstanceSpecs example example_props = defaultComputeInstanceSpecs"
    by (simp add: currentComputeInstanceSpecs_def computeInstance_def getAddons_def
        selectedAddons_def example_def)
  have fixed: "currentComputeInstanceSpecs example_fixed_throughput example_props =
      \<lparr>baseline_disk_io_mbs = Some 4750, max_disk_io_mbs = Some 4750, cpu_cores = Some 16,
       cpu_dedicated = Some True, memory_gb = Some 64\<rparr>"
    by (simp add: currentComputeInstanceSpecs_def computeInstance_def getAddons_def
        selectedAddons_def example_fixed_throughput_def example_def)
  from burst_sentence_selection[OF cat metric mem io, of example_props]
  obtain r s d where "Infrastructure example example_props = Inr (Some r)"
      "s \<in> set (sections r)" "sec_section s = example_attributes ! 2" "sec_disk_io s = Some d"
      "io_sentence d = BurstThenRevert (Some 2085) (Some 87)"
      "ov_burst_limit (io_overview d) = Some ''30 mins''"
    unfolding default defaultComputeInstanceSpecs_def by auto
  then have burst:
    "\<exists>r s d. Infrastructure example example_props = Inr (Some r) \<and> s \<in> set (sections r) \<and>
          sec_section s = example_attributes ! 2 \<and> sec_disk_io s = Some d \<and>
          io_sentence d = BurstThenRevert (Some 2085) (Some 87) \<and>
          ov_burst_limit (io_overview d) = Some ''30 mins''"
    by (intro exI[of _ r] exI[of _ s] exI[of _ d]) simp
  from burst_sentence_selection[OF cat_fixed metric mem io, of example_props]
  obtain r s d where "Infrastructure example_fixed_throughput example_props = Inr (Some r)"
      "s \<in> set (sections r)" "sec_section s = example_attributes ! 2" "sec_disk_io s = Some d"
      "io_sentence d = FixedThroughput (Some 4750)"
      "ov_burst_limit (io_overview d) = None"
    unfolding fixed by auto
  then have
    "\<exists>r s d. Infrastructure example_fixed_throughput example_props = Inr (Some r) \<and>
          s \<in> set (sections r) \<and>
          sec_section s = example_attributes ! 2 \<and> sec_disk_io s = Some d \<and>
          io_sentence d = FixedThroughput (Some 4750) \<and>
          ov_burst_limit (io_overview d) = None"
    by (intro exI[of _ r] exI[of _ s] exI[of _ d]) simp
  with burst show ?thesis by (intro conjI)
qed

text \<open>
  C8: when no category of the catalog has the key "infra", the component returns
  \<open>null\<close>: no header, no section, and no error.
\<close>

theorem no_infra_category_renders_nothing:
  assumes "\<forall>category \<in> set (USAGE_CATEGORIES c). category_key category \<noteq> ''infra''"
  shows "Infrastructure c p = Inr None"
proof -
  have "categoryMeta c = None"
    using assms by (simp add: categoryMeta_def find_None_iff)
  then show ?thesis by (simp add: Infrastructure_def)
qed

text \<open>A catalog with the one category "db".\<close>

theorem no_infra_category_renders_nothing_witness:
  "map category_key
     (USAGE_CATEGORIES
        (example\<lparr>USAGE_CATEGORIES :=
           [\<lparr>category_key = ''db'', category_name = ''Database'',
             category_description = ''Database usage'', attributes = []\<rparr>]\<rparr>)) = [''db''] \<and>
   Infrastructure
     (example\<lparr>USAGE_CATEGORIES :=
        [\<lparr>category_key = ''db'', category_name = ''Database'',
          category_description = ''Database usage'', attributes = []\<rparr>]\<rparr>) example_props
     = Inr None"
  using no_infra_category_renders_nothing[of
      "example\<lparr>USAGE_CATEGORIES :=
         [\<lparr>category_key = ''db'', category_name = ''Database'',
           category_description = ''Database usage'', attributes = []\<rparr>]\<rparr>" example_props]
  by (simp add: example_def)

text \<open>
  C9: when the \<open>endDate\<close> prop is undefined, dayjs reads it as the current instant, so
  \<open>hasLatest\<close> holds whenever now is after the start of the current day (it fails only
  exactly at midnight); the latest consumption is then the number of the last point of
  a series that has one.
\<close>

theorem undefined_end_date_has_latest:
  assumes "endDate p = None"
  shows "hasLatest c p = (dayjs_startOfDay c (dayjs_now c) < dayjs_now c) \<and>
         (dayjs_startOfDay c (dayjs_now c) < dayjs_now c \<longrightarrow>
            (\<forall>xs. data_of (query_data (ioBudget c p)) = Some xs \<longrightarrow> xs \<noteq> [] \<longrightarrow>
               latestIoBudgetConsumption c p
                 = Number (get_prop (last xs) ''disk_io_consumption'')))"
  using assms
  by (simp add: hasLatest_def dayjs_def startOf_day_def latestIoBudgetConsumption_def
      lastPoint_def slice_last_def)

text \<open>In the example, at 09:30, with no end date: the latest consumption is 9.\<close>

theorem undefined_end_date_has_latest_witness:
  "dayjs_startOfDay example (dayjs_now example) < dayjs_now example \<and>
   hasLatest example (example_props\<lparr>endDate := None\<rparr>) \<and>
   latestIoBudgetConsumption example (example_props\<lparr>endDate := None\<rparr>) = Fin 9"
proof -
  have none: "endDate (example_props\<lparr>endDate := None\<rparr>) = None"
    by simp
  have morning: "dayjs_startOfDay example (dayjs_now example) < dayjs_now example"
    by (simp add: example_def)
  have series: "data_of (query_data (ioBudget example (example_props\<lparr>endDate := None\<rparr>)))
      = Some example_series"
    by (simp add: data_of_def ioBudget_def infraMonitoringVariables_def example_def)
  have "example_series \<noteq> []"
    and "Number (get_prop (last example_series) ''disk_io_consumption'') = Fin 9"
    by (simp_all add: example_series_def get_prop_def)
  with undefined_end_date_has_latest[OF none, of example] morning series
  show ?thesis by simp
qed

text \<open>
  C10: when the subscription is not there yet, or its plan is missing or has another
  identifier than "free", \<open>isFreePlan\<close> is false, and so is the flag of every warning
  block of every section of the render.
\<close>

theorem not_free_plan_flag:
  assumes "\<forall>s pl. subscription c p = Some s \<longrightarrow> plan s = Some pl \<longrightarrow> plan_id pl \<noteq> ''free''"
  shows "\<not> isFreePlan c p \<and>
         (\<forall>r. Infrastructure c p = Inr (Some r) \<longrightarrow>
            (\<forall>s \<in> set (sections r).
               (\<forall>d. sec_disk_io s = Some d \<longrightarrow> \<not> io_isFreePlan (io_warnings d)) \<and>
               (\<forall>w. sec_cpu_warnings s = Some w \<longrightarrow> \<not> sw_isFreePlan w) \<and>
               (\<forall>w. sec_ram_warnings s = Some w \<longrightarrow> \<not> sw_isFreePlan w)))"
proof -
  have free: "\<not> isFreePlan c p"
    using assms by (auto simp: isFreePlan_def Option.bind_eq_Some_conv)
  have "(\<forall>d. sec_disk_io s = Some d \<longrightarrow> \<not> io_isFreePlan (io_warnings d)) \<and>
        (\<forall>w. sec_cpu_warnings s = Some w \<longrightarrow> \<not> sw_isFreePlan w) \<and>
        (\<forall>w. sec_ram_warnings s = Some w \<longrightarrow> \<not> sw_isFreePlan w)"
    if rendered: "Infrastructure c p = Inr (Some r)" and mem: "s \<in> set (sections r)" for r s
  proof -
    from rendered obtain cm :: CategoryMeta
      where "renderAttributes c p (attributes cm) = Inr (sections r)"
      using Infrastructure_sections by blast
    then obtain a where a: "renderAttribute c p a = Inr s"
      using renderAttributes_sections mem by blast
    show ?thesis
      using renderAttribute_fields(1-3)[OF a] free
      by (auto simp: diskIOSection_def diskIOWarnings_def cpuWarnings_def ramWarnings_def
          split: if_splits)
  qed
  with free show ?thesis by blast
qed

text \<open>
  The example has the plan "pro"; with the subscription unresolved the render has three
  warning blocks, each with the flag false.
\<close>

theorem not_free_plan_flag_witness:
  "\<not> isFreePlan example example_props \<and>
   \<not> isFreePlan (example\<lparr>useProjectSubscriptionV2Query := (\<lambda>_. None)\<rparr>) example_props \<and>
   (\<exists>r. Infrastructure (example\<lparr>useProjectSubscriptionV2Query := (\<lambda>_. None)\<rparr>) example_props
           = Inr (Some r) \<and>
        map (\<lambda>s. (map_option (\<lambda>d. io_isFreePlan (io_warnings d)) (sec_disk_io s),
                  map_option sw_isFreePlan (sec_cpu_warnings s),
                  map_option sw_isFreePlan (sec_ram_warnings s))) (sections r)
          = [(None, Some False, None), (None, None, Some False), (Some False, None, None)])"
proof -
  let ?unresolved = "example\<lparr>useProjectSubscriptionV2Query := (\<lambda>_. None)\<rparr>"
  have paid: "\<forall>s pl. subscription example example_props = Some s \<longrightarrow> plan s = Some pl \<longrightarrow>
      plan_id pl \<noteq> ''free''"
    by (auto simp: subscription_def example_def)
  have unresolved: "\<forall>s pl. subscription ?unresolved example_props = Some s \<longrightarrow>
      plan s = Some pl \<longrightarrow> plan_id pl \<noteq> ''free''"
    by (simp add: subscription_def)
  have flags: "\<not> isFreePlan example example_props" "\<not> isFreePlan ?unresolved example_props"
    using not_free_plan_flag[OF paid] not_free_plan_flag[OF unresolved] by blast+
  have cat: "categoryMeta ?unresolved =
      Some \<lparr>category_key = ''infra'', category_name = ''Infrastructure'',
            category_description = ''Usage statistics of your server instance'',
            attributes = example_attributes\<rparr>"
    by (simp add: categoryMeta_def example_def)
  have "\<exists>r. Infrastructure ?unresolved example_props = Inr (Some r) \<and>
        map (\<lambda>s. (map_option (\<lambda>d. io_isFreePlan (io_warnings d)) (sec_disk_io s),
                  map_option sw_isFreePlan (sec_cpu_warnings s),
                  map_option sw_isFreePlan (sec_ram_warnings s))) (sections r)
          = [(None, Some False, None), (None, None, Some False), (Some False, None, None)]"
    using flags(2)
    by (simp add: Infrastructure_def cat example_attributes_def renderAttribute_def
        chartIsLoading_def chartMeta_def diskIOSection_def diskIOWarnings_def cpuWarnings_def
        ramWarnings_def)
  with flags show ?thesis by blast
qed

end
